theory Spec2Isabelle
  imports Main
begin

section \<open>Data model (src/types.ts)\<close>

text \<open>
  The TypeScript interfaces \<^verbatim>\<open>PriceHistoryEntry\<close>, \<^verbatim>\<open>Square\<close> and \<^verbatim>\<open>User\<close>.
  A JavaScript \<^verbatim>\<open>number\<close> that holds an id, a price or a timestamp is an \<^typ>\<open>int\<close>;
  \<^verbatim>\<open>T | null\<close> is \<^typ>\<open>'a option\<close> with \<^term>\<open>None\<close> for \<^verbatim>\<open>null\<close>.
  Field names clash between the interfaces (and \<^verbatim>\<open>id\<close> with the identity function),
  so the fields of a history entry carry the prefix \<open>h_\<close> and \<^verbatim>\<open>id\<close> is \<open>sq_id\<close>.
  Doubling a price is exact in the number format of JavaScript until the format
  overflows, beyond \<open>2 ^ 1023\<close>; the integers of the model do not overflow.
\<close>

record PriceHistoryEntry =
  h_owner :: string
  h_price :: int
  h_timestamp :: int

record Square =
  sq_id :: int
  owner :: "string option"
  price :: int
  color :: "string option"
  imageData :: "string option"
  priceHistory :: "PriceHistoryEntry list"

record User =
  uid :: string
  email :: "string option"
  displayName :: "string option"

section \<open>Grid utilities (src/utils/gridUtils.ts)\<close>

definition GRID_SIZE :: int where
  "GRID_SIZE = 120"

definition INITIAL_SQUARE_PRICE :: int where
  "INITIAL_SQUARE_PRICE = 1"

record SquarePosition =
  pos_x :: int
  pos_y :: int

text \<open>
  The remainder operator \<^verbatim>\<open>%\<close> of JavaScript on integers: the result takes the sign of
  the dividend (\<^verbatim>\<open>-1 % 120\<close> is \<^verbatim>\<open>-1\<close>), unlike \<^term>\<open>(mod)\<close> on \<^typ>\<open>int\<close>.
\<close>

definition js_rem :: "int \<Rightarrow> int \<Rightarrow> int" where
  "js_rem a b = sgn a * (\<bar>a\<bar> mod \<bar>b\<bar>)"

text \<open>
  \<^verbatim>\<open>calculateSquarePosition = (id) => ({ x: id % GRID_SIZE, y: Math.floor(id / GRID_SIZE) })\<close>.
  \<^verbatim>\<open>Math.floor\<close> of the quotient is the flooring \<^term>\<open>(div)\<close> of \<^typ>\<open>int\<close>.
\<close>

definition calculateSquarePosition :: "int \<Rightarrow> SquarePosition" where
  "calculateSquarePosition i =
     \<lparr>pos_x = js_rem i GRID_SIZE, pos_y = i div GRID_SIZE\<rparr>"

text \<open>\<^verbatim>\<open>calculateSquareId = (x, y) => y * GRID_SIZE + x\<close>.\<close>

definition calculateSquareId :: "int \<Rightarrow> int \<Rightarrow> int" where
  "calculateSquareId x y = y * GRID_SIZE + x"

definition isValidSquareId :: "int \<Rightarrow> bool" where
  "isValidSquareId i = (i \<ge> 0 \<and> i < GRID_SIZE * GRID_SIZE)"

definition isValidSquarePosition :: "int \<Rightarrow> int \<Rightarrow> bool" where
  "isValidSquarePosition x y = (x \<ge> 0 \<and> x < GRID_SIZE \<and> y \<ge> 0 \<and> y < GRID_SIZE)"

text \<open>
  \<^verbatim>\<open>initializeGrid\<close>: the loop pushes one default square for each
  \<^verbatim>\<open>i\<close> from 0 below \<^verbatim>\<open>GRID_SIZE * GRID_SIZE\<close>.
\<close>

definition defaultSquare :: "int \<Rightarrow> Square" where
  "defaultSquare i =
     \<lparr>sq_id = i, owner = None, price = 1, color = Some ''#ffffff'',
      imageData = None, priceHistory = []\<rparr>"

definition initializeGrid :: "Square list" where
  "initializeGrid = map (\<lambda>i. defaultSquare (int i)) [0 ..< nat (GRID_SIZE * GRID_SIZE)]"

section \<open>Application state and the Firestore collection (App component)\<close>

text \<open>
  The React state of \<^verbatim>\<open>App\<close> that the handlers below read or write. A handler reads
  the values its closure captured at the render that created it and writes through the
  setters; \<^verbatim>\<open>setSquares(prevSquares => ...)\<close> runs on the state current at the time
  of the update. The handlers therefore take two states: \<open>cl\<close>, the values of the
  closure, and \<open>st\<close>, the state the setters act on.
\<close>

record AppState =
  squares :: "Square list"
  user :: "User option"
  selectedSquare :: "int option"
  currentSquare :: "Square option"
  authModalOpen :: bool
  paymentModalOpen :: bool
  viewSquareModalOpen :: bool
  drawingCanvasOpen :: bool
  isEditing :: bool
  isProcessingPayment :: bool
  purchaseSuccess :: bool
  isLoadingSquares :: bool

text \<open>
  A document of the \<^verbatim>\<open>squares\<close> collection. For the fields other than the owner,
  \<^term>\<open>None\<close> is a field that the document does not have or that holds \<^verbatim>\<open>null\<close>:
  the code reads both the same way, through \<^verbatim>\<open>||\<close>. For \<open>d_owner\<close>, \<^term>\<open>None\<close> is a
  stored \<^verbatim>\<open>null\<close> and nothing else: the record has no value for a document without an
  owner field. Both \<^verbatim>\<open>setDoc\<close> calls of the application set \<^verbatim>\<open>owner\<close>, so every
  document that the application writes has the field; a document without it can only
  come from outside the application, would be read as \<^verbatim>\<open>undefined\<close>, a value that the
  type \<^verbatim>\<open>string | null\<close> of \<^verbatim>\<open>Square.owner\<close> does not have, and is not covered
  here. The collection is keyed by the square's id, whose decimal string is the
  document id (\<^verbatim>\<open>selectedSquare.toString()\<close>, \<^verbatim>\<open>parseInt(doc.id)\<close>).
\<close>

record SquareDoc =
  d_owner :: "string option"
  d_price :: "int option"
  d_priceHistory :: "PriceHistoryEntry list option"
  d_imageData :: "string option"
  d_color :: "string option"
  d_updatedAt :: "string option"

type_synonym Firestore = "int \<rightharpoonup> SquareDoc"

definition emptyDoc :: SquareDoc where
  "emptyDoc = \<lparr>d_owner = None, d_price = None, d_priceHistory = None,
     d_imageData = None, d_color = None, d_updatedAt = None\<rparr>"

text \<open>
  The document a \<^verbatim>\<open>setDoc(ref, data, { merge: true })\<close> merges into: the stored one,
  or, for an id without a document, the base \<open>emptyDoc\<close> that has no field yet. The
  base is never stored or delivered as it is, since every merge sets the owner.
\<close>

definition docAt :: "Firestore \<Rightarrow> int \<Rightarrow> SquareDoc" where
  "docAt db k = (case db k of None \<Rightarrow> emptyDoc | Some d \<Rightarrow> d)"

text \<open>JavaScript truthiness of a \<^verbatim>\<open>string | null\<close>: neither \<^verbatim>\<open>null\<close> nor empty.\<close>

definition truthy :: "string option \<Rightarrow> bool" where
  "truthy v = (case v of None \<Rightarrow> False | Some t \<Rightarrow> t \<noteq> [])"

text \<open>How a handler ends: at a guard's \<^verbatim>\<open>return\<close>, at the end of its \<^verbatim>\<open>try\<close>
  block, or in its \<^verbatim>\<open>catch\<close> block after \<^verbatim>\<open>setDoc\<close> rejected.\<close>

datatype Outcome = EarlyReturn | Done | WriteFailed

subsection \<open>finalizeSquarePurchase\<close>

text \<open>
  \<^verbatim>\<open>const price = isOwned ? square.price * 2 : square.price\<close>, with
  \<^verbatim>\<open>isOwned = square.owner !== null\<close>; the same expression prices the checkout in the
  payment options modal.
\<close>

definition quotedPrice :: "Square \<Rightarrow> int" where
  "quotedPrice square = (if owner square \<noteq> None then price square * 2 else price square)"

text \<open>
  The callback of \<^verbatim>\<open>prevSquares.map\<close>. \<open>isOwned\<close> and \<open>newPrice\<close> come from the square
  found in the closure's \<^verbatim>\<open>squares\<close>; \<open>s\<close> is the square of the current state. The entry
  is pushed under \<^verbatim>\<open>isOwned && s.owner\<close>.
\<close>

definition purchaseSquare :: "int \<Rightarrow> string \<Rightarrow> bool \<Rightarrow> int \<Rightarrow> int \<Rightarrow> Square \<Rightarrow> Square" where
  "purchaseSquare sel buyer isOwned newPrice now s =
     (if sq_id s = sel then
        s\<lparr>owner := Some buyer,
          price := newPrice,
          color := (if isOwned then color s else Some ''#ffffff''),
          imageData := (if isOwned then imageData s else None),
          priceHistory := priceHistory s @
            (if isOwned then
               (case owner s of
                  None \<Rightarrow> []
                | Some ow \<Rightarrow>
                    if ow = [] then []
                    else [\<lparr>h_owner = ow, h_price = price s, h_timestamp = now\<rparr>])
             else [])\<rparr>
      else s)"

text \<open>
  The data of the \<^verbatim>\<open>setDoc\<close> call merged into the stored document \<open>d\<close>. An array is
  truthy, so \<^verbatim>\<open>square.priceHistory ? [...] : []\<close> takes its first branch; the spread
  \<^verbatim>\<open>...(isOwned ? {} : { imageData: null, color: '#ffffff' })\<close> writes the two fields
  only for an unowned square.
\<close>

definition purchaseDoc :: "string \<Rightarrow> Square \<Rightarrow> int \<Rightarrow> string \<Rightarrow> SquareDoc \<Rightarrow> SquareDoc" where
  "purchaseDoc buyer square now isoTime d =
     (let d1 = d\<lparr>d_owner := Some buyer,
                 d_price := Some (quotedPrice square),
                 d_priceHistory := Some (priceHistory square @
                   (case owner square of
                      None \<Rightarrow> []
                    | Some ow \<Rightarrow> [\<lparr>h_owner = ow, h_price = price square, h_timestamp = now\<rparr>])),
                 d_updatedAt := Some isoTime\<rparr>
      in if owner square \<noteq> None then d1
         else d1\<lparr>d_imageData := None, d_color := Some ''#ffffff''\<rparr>)"

text \<open>
  \<^verbatim>\<open>finalizeSquarePurchase\<close>. \<open>setDocOk\<close> says whether the awaited \<^verbatim>\<open>setDoc\<close> resolves;
  \<open>tLocal\<close> and \<open>tStore\<close> are the two readings of \<^verbatim>\<open>Date.now()\<close> and \<open>isoTime\<close> the
  string of \<^verbatim>\<open>new Date().toISOString()\<close>. \<^verbatim>\<open>!selectedSquare\<close> holds for \<^verbatim>\<open>null\<close>
  and for the id 0. The second guard returns inside \<^verbatim>\<open>try\<close>, so \<^verbatim>\<open>finally\<close> runs.
  The local update precedes the write and stays when the write fails. The timer that
  clears \<^verbatim>\<open>purchaseSuccess\<close> after three seconds is not part of the model.
\<close>

definition finalizeSquarePurchase ::
  "AppState \<Rightarrow> bool \<Rightarrow> int \<Rightarrow> int \<Rightarrow> string \<Rightarrow> AppState \<Rightarrow> Firestore
     \<Rightarrow> Outcome \<times> AppState \<times> Firestore" where
  "finalizeSquarePurchase cl setDocOk tLocal tStore isoTime st db =
     (case selectedSquare cl of
        None \<Rightarrow> (EarlyReturn, st, db)
      | Some sel \<Rightarrow>
          if sel = 0 then (EarlyReturn, st, db)
          else
            (case user cl of
               None \<Rightarrow> (EarlyReturn, st, db)
             | Some u \<Rightarrow>
                 (case find (\<lambda>s. sq_id s = sel) (squares cl) of
                    None \<Rightarrow> (EarlyReturn, st\<lparr>isProcessingPayment := False\<rparr>, db)
                  | Some square \<Rightarrow>
                      let st1 = st\<lparr>squares :=
                            map (purchaseSquare sel (uid u) (owner square \<noteq> None)
                                   (quotedPrice square) tLocal) (squares st)\<rparr>
                      in if setDocOk then
                           (Done,
                            st1\<lparr>purchaseSuccess := True, isProcessingPayment := False\<rparr>,
                            db(sel \<mapsto> purchaseDoc (uid u) square tStore isoTime (docAt db sel)))
                         else (WriteFailed, st1\<lparr>isProcessingPayment := False\<rparr>, db))))"

text \<open>
  The \<^verbatim>\<open>amount\<close> prop of \<^verbatim>\<open>PaymentModal\<close>, the price the modal shows the buyer:
  \<^verbatim>\<open>selectedSquare ? squares.find(s => s.id === selectedSquare)?.price || 1 : 0\<close>.
\<close>

definition paymentModalAmount :: "AppState \<Rightarrow> int" where
  "paymentModalAmount st =
     (case selectedSquare st of
        None \<Rightarrow> 0
      | Some sel \<Rightarrow>
          if sel = 0 then 0
          else (case find (\<lambda>s. sq_id s = sel) (squares st) of
                  None \<Rightarrow> 1
                | Some s \<Rightarrow> if price s = 0 then 1 else price s))"

subsection \<open>handleSquareClick\<close>

definition handleSquareClick :: "AppState \<Rightarrow> int \<Rightarrow> AppState \<Rightarrow> AppState" where
  "handleSquareClick cl squareId st =
     (let st1 = st\<lparr>selectedSquare := Some squareId\<rparr> in
      case find (\<lambda>s. sq_id s = squareId) (squares cl) of
        None \<Rightarrow> st1
      | Some square \<Rightarrow>
          (case user cl of
             None \<Rightarrow> st1\<lparr>authModalOpen := True\<rparr>
           | Some u \<Rightarrow>
               if owner square = Some (uid u) then
                 st1\<lparr>currentSquare := Some square, isEditing := True, drawingCanvasOpen := True\<rparr>
               else if owner square \<noteq> None
                       \<and> (truthy (imageData square) \<or> color square \<noteq> Some ''#ffffff'') then
                 st1\<lparr>currentSquare := Some square, viewSquareModalOpen := True\<rparr>
               else st1\<lparr>paymentModalOpen := True\<rparr>))"

subsection \<open>handleSaveDrawing\<close>

text \<open>
  \<^verbatim>\<open>handleSaveDrawing(imageData)\<close>: the guard is \<^verbatim>\<open>!currentSquare || !user\<close>; the local
  update replaces \<^verbatim>\<open>imageData\<close> of the square with the id of \<^verbatim>\<open>currentSquare\<close>; the
  write merges \<^verbatim>\<open>{ owner: user.uid, imageData }\<close>; the canvas closes after the write.
\<close>

definition handleSaveDrawing ::
  "AppState \<Rightarrow> string \<Rightarrow> bool \<Rightarrow> AppState \<Rightarrow> Firestore \<Rightarrow> Outcome \<times> AppState \<times> Firestore" where
  "handleSaveDrawing cl img setDocOk st db =
     (case currentSquare cl of
        None \<Rightarrow> (EarlyReturn, st, db)
      | Some cs \<Rightarrow>
          (case user cl of
             None \<Rightarrow> (EarlyReturn, st, db)
           | Some u \<Rightarrow>
               let st1 = st\<lparr>squares :=
                     map (\<lambda>s. if sq_id s = sq_id cs then s\<lparr>imageData := Some img\<rparr> else s)
                       (squares st)\<rparr>
               in if setDocOk then
                    (Done,
                     st1\<lparr>drawingCanvasOpen := False, currentSquare := None\<rparr>,
                     db(sq_id cs \<mapsto> (docAt db (sq_id cs))\<lparr>d_owner := Some (uid u),
                                                             d_imageData := Some img\<rparr>))
                  else (WriteFailed, st1, db)))"

subsection \<open>The snapshot listener of the squares collection\<close>

text \<open>
  The body of \<^verbatim>\<open>snapshot.forEach\<close>, run over the documents in order; a document is the
  pair of \<^verbatim>\<open>parseInt(doc.id)\<close> and its data. The assignment replaces \<^verbatim>\<open>owner\<close>,
  \<^verbatim>\<open>imageData\<close> and \<^verbatim>\<open>color\<close> of the default square and spreads the rest of it.
  \<^verbatim>\<open>owner: data.owner\<close> copies the owner field of the document, a uid or \<^verbatim>\<open>null\<close>;
  the documents of \<open>SquareDoc\<close> all have that field.
\<close>

definition mergeSnapshotDoc :: "SquareDoc \<Rightarrow> Square \<Rightarrow> Square" where
  "mergeSnapshotDoc d s =
     s\<lparr>owner := d_owner d,
       imageData := (if truthy (d_imageData d) then d_imageData d else None),
       color := (if truthy (d_color d) then d_color d else Some ''#ffffff'')\<rparr>"

fun applySnapshot :: "(int \<times> SquareDoc) list \<Rightarrow> Square list \<Rightarrow> Square list" where
  "applySnapshot [] updatedSquares = updatedSquares"
| "applySnapshot ((squareId, d) # docs) updatedSquares =
     applySnapshot docs
       (if squareId \<ge> 0 \<and> squareId < int (length updatedSquares) then
          updatedSquares[nat squareId := mergeSnapshotDoc d (updatedSquares ! nat squareId)]
        else updatedSquares)"

definition onSnapshotSquares :: "(int \<times> SquareDoc) list \<Rightarrow> AppState \<Rightarrow> AppState" where
  "onSnapshotSquares snapshot st =
     st\<lparr>squares := applySnapshot snapshot initializeGrid, isLoadingSquares := False\<rparr>"

section \<open>Scenarios\<close>

text \<open>The state of \<^verbatim>\<open>App\<close> at its first render: the initial values of \<^verbatim>\<open>useState\<close>.\<close>

definition initialState :: AppState where
  "initialState =
     \<lparr>squares = initializeGrid, user = None, selectedSquare = None, currentSquare = None,
      authModalOpen = False, paymentModalOpen = False, viewSquareModalOpen = False,
      drawingCanvasOpen = False, isEditing = False, isProcessingPayment = False,
      purchaseSuccess = False, isLoadingSquares = True\<rparr>"

definition userA :: User where
  "userA = \<lparr>uid = ''A'', email = None, displayName = None\<rparr>"

definition userB :: User where
  "userB = \<lparr>uid = ''B'', email = None, displayName = None\<rparr>"

text \<open>
  Square 5 of the grid in the conditions the scenarios need: bought by A while unowned
  (price 1, colour reset) and then painted by A; bought from A by B afterwards; unowned
  but carrying a drawing and a fill colour; and the documents the store holds after the
  purchase and the drawing of A, after the purchase by B, and after a purchase by a third
  user X at the price 2.
\<close>

definition ownedByA :: Square where
  "ownedByA = \<lparr>sq_id = 5, owner = Some ''A'', price = 1, color = Some ''#ffffff'',
     imageData = Some ''data:image/png;base64,QQ=='', priceHistory = []\<rparr>"

definition boughtByB :: Square where
  "boughtByB = \<lparr>sq_id = 5, owner = Some ''B'', price = 2, color = Some ''#ffffff'',
     imageData = Some ''data:image/png;base64,QQ=='',
     priceHistory = [\<lparr>h_owner = ''A'', h_price = 1, h_timestamp = 1000\<rparr>]\<rparr>"



definition docOfB :: SquareDoc where
  "docOfB = \<lparr>d_owner = Some ''B'', d_price = Some 2,
     d_priceHistory = Some [\<lparr>h_owner = ''A'', h_price = 1, h_timestamp = 1000\<rparr>],
     d_imageData = Some ''data:image/png;base64,QQ=='', d_color = Some ''#ffffff'',
     d_updatedAt = Some ''2025-01-01T00:00:01.000Z''\<rparr>"

definition docOfX :: SquareDoc where
  "docOfX = \<lparr>d_owner = Some ''X'', d_price = Some 2, d_priceHistory = Some [],
     d_imageData = None, d_color = Some ''#ffffff'',
     d_updatedAt = Some ''2025-01-01T00:00:00.000Z''\<rparr>"

text \<open>A render in which \<open>u\<close> is signed in and has selected square 5 of grid \<open>g\<close>.\<close>

definition selecting5 :: "User \<Rightarrow> Square list \<Rightarrow> AppState" where
  "selecting5 u g = initialState\<lparr>squares := g, user := Some u, selectedSquare := Some 5,
     isLoadingSquares := False\<rparr>"

text \<open>
  Square 5 as the snapshot listener rebuilds it from the document \<open>docOfB\<close>.
\<close>

definition reconciledB :: Square where
  "reconciledB = \<lparr>sq_id = 5, owner = Some ''B'', price = 1, color = Some ''#ffffff'',
     imageData = Some ''data:image/png;base64,QQ=='', priceHistory = []\<rparr>"

text \<open>
  A render in which \<open>u\<close> has the drawing canvas open on \<open>cs\<close>, the copy of square 5
  that \<^verbatim>\<open>handleSquareClick\<close> stored in \<^verbatim>\<open>currentSquare\<close>, while the grid is \<open>g\<close>.
\<close>

definition editing5 :: "User \<Rightarrow> Square \<Rightarrow> Square list \<Rightarrow> AppState" where
  "editing5 u cs g = (selecting5 u g)\<lparr>currentSquare := Some cs, isEditing := True,
     drawingCanvasOpen := True\<rparr>"

text \<open>
  A completed purchase of square \<open>k\<close>: the buyer has selected the square, the handler
  was created by the render of the current state, and the write succeeds.
\<close>

record Buy =
  buyer :: User
  atTime :: int
  atIso :: string

definition purchaseBy :: "int \<Rightarrow> AppState \<times> Firestore \<Rightarrow> Buy \<Rightarrow> AppState \<times> Firestore" where
  "purchaseBy k s b =
     (let cl = (fst s)\<lparr>selectedSquare := Some k, user := Some (buyer b)\<rparr>
      in snd (finalizeSquarePurchase cl True (atTime b) (atTime b) (atIso b) cl (snd s)))"

text \<open>
  The snapshot that the listener receives for a store: the stored documents whose ids
  lie in the grid, by ascending id. The range check of the listener skips every other
  document and no two documents share an id, so the grid that the listener rebuilds
  depends neither on the order nor on the documents left out here.
\<close>

definition snapshotOf :: "Firestore \<Rightarrow> (int \<times> SquareDoc) list" where
  "snapshotOf db =
     concat (map (\<lambda>i. case db (int i) of None \<Rightarrow> [] | Some d \<Rightarrow> [(int i, d)])
               [0 ..< nat (GRID_SIZE * GRID_SIZE)])"

text \<open>
  A purchase as the program runs it: the listener is subscribed for as long as
  \<^verbatim>\<open>App\<close> is mounted, so the write of the purchase is followed by the delivery of
  the store, and \<^verbatim>\<open>setSquares(updatedSquares)\<close> replaces the grid. The grid of every
  client is then the one rebuilt from the store, so one state stands for the client of
  whoever buys next. A run of purchases of one square is the left fold of this step.
\<close>

definition purchaseAndSync ::
  "int \<Rightarrow> AppState \<times> Firestore \<Rightarrow> Buy \<Rightarrow> AppState \<times> Firestore" where
  "purchaseAndSync k s b =
     (let s1 = purchaseBy k s b
      in (onSnapshotSquares (snapshotOf (snd s1)) (fst s1), snd s1))"

definition syncedPurchases ::
  "int \<Rightarrow> Buy list \<Rightarrow> AppState \<times> Firestore \<Rightarrow> AppState \<times> Firestore" where
  "syncedPurchases k bs s = foldl (purchaseAndSync k) s bs"

text \<open>Three purchases, by A, by B and by A again, one second apart.\<close>

definition buyA :: Buy where
  "buyA = \<lparr>buyer = userA, atTime = 1000, atIso = ''2025-01-01T00:00:01.000Z''\<rparr>"

definition buyB :: Buy where
  "buyB = \<lparr>buyer = userB, atTime = 2000, atIso = ''2025-01-01T00:00:02.000Z''\<rparr>"

definition buyA2 :: Buy where
  "buyA2 = \<lparr>buyer = userA, atTime = 3000, atIso = ''2025-01-01T00:00:03.000Z''\<rparr>"

text \<open>The square with id \<open>k\<close> of a state, as the handlers look it up.\<close>

definition squareOf :: "int \<Rightarrow> AppState \<Rightarrow> Square option" where
  "squareOf k st = find (\<lambda>s. sq_id s = k) (squares st)"

section \<open>Properties of the grid utilities\<close>

lemma js_rem_nonneg: "0 \<le> a \<Longrightarrow> 0 < b \<Longrightarrow> js_rem a b = a mod b"
  by (cases "a = 0") (simp_all add: js_rem_def)

lemma length_initializeGrid: "length initializeGrid = 14400"
  by (simp add: initializeGrid_def GRID_SIZE_def)

lemma nth_initializeGrid:
  "i < 14400 \<Longrightarrow> initializeGrid ! i = defaultSquare (int i)"
  by (simp add: initializeGrid_def GRID_SIZE_def)

text \<open>
  Claim C9, as the code has it. \<^verbatim>\<open>calculateSquareId\<close> and
  \<^verbatim>\<open>calculateSquarePosition\<close> are plain arithmetic and have no failure branch: the
  range checks are the separate predicates \<^verbatim>\<open>isValidSquarePosition\<close> and
  \<^verbatim>\<open>isValidSquareId\<close>. An id is in range exactly when the position computed from it
  is, and on the inputs the predicates accept the two functions are inverse to each
  other.
\<close>

theorem calculateSquare_total_inverse_on_valid:
  "(isValidSquareId i \<longleftrightarrow>
      isValidSquarePosition (pos_x (calculateSquarePosition i)) (pos_y (calculateSquarePosition i)))
   \<and> (isValidSquareId i \<longrightarrow>
      calculateSquareId (pos_x (calculateSquarePosition i)) (pos_y (calculateSquarePosition i)) = i)
   \<and> (isValidSquarePosition x y \<longrightarrow>
      isValidSquareId (calculateSquareId x y)
      \<and> calculateSquarePosition (calculateSquareId x y) = \<lparr>pos_x = x, pos_y = y\<rparr>)"
proof (intro conjI impI)
  show "isValidSquareId i \<longleftrightarrow>
      isValidSquarePosition (pos_x (calculateSquarePosition i)) (pos_y (calculateSquarePosition i))"
  proof
    assume v: "isValidSquareId i"
    then have "0 \<le> i" "i < 14400"
      by (simp_all add: isValidSquareId_def GRID_SIZE_def)
    then show "isValidSquarePosition (pos_x (calculateSquarePosition i))
        (pos_y (calculateSquarePosition i))"
      by (simp add: isValidSquarePosition_def calculateSquarePosition_def GRID_SIZE_def
          js_rem_nonneg) presburger
  next
    assume "isValidSquarePosition (pos_x (calculateSquarePosition i))
        (pos_y (calculateSquarePosition i))"
    then have "0 \<le> i div 120" "i div 120 < 120"
      by (simp_all add: isValidSquarePosition_def calculateSquarePosition_def GRID_SIZE_def)
    then show "isValidSquareId i"
      by (simp add: isValidSquareId_def GRID_SIZE_def) presburger
  qed
next
  assume "isValidSquareId i"
  then have "0 \<le> i"
    by (simp add: isValidSquareId_def)
  then show "calculateSquareId (pos_x (calculateSquarePosition i))
      (pos_y (calculateSquarePosition i)) = i"
    by (simp add: calculateSquareId_def calculateSquarePosition_def GRID_SIZE_def js_rem_nonneg)
next
  assume p: "isValidSquarePosition x y"
  then have b: "0 \<le> x" "x < 120" "0 \<le> y" "y < 120"
    by (simp_all add: isValidSquarePosition_def GRID_SIZE_def)
  then have "y * 120 + x < 14400"
    by presburger
  with b show "isValidSquareId (calculateSquareId x y)"
    by (simp add: isValidSquareId_def calculateSquareId_def GRID_SIZE_def)
next
  assume p: "isValidSquarePosition x y"
  then have b: "0 \<le> x" "x < 120" "0 \<le> y" "y < 120"
    by (simp_all add: isValidSquarePosition_def GRID_SIZE_def)
  then have nn: "0 \<le> y * 120 + x"
    by simp
  from b have "(y * 120 + x) mod 120 = x" "(y * 120 + x) div 120 = y"
    by simp_all
  with nn show "calculateSquarePosition (calculateSquareId x y) = \<lparr>pos_x = x, pos_y = y\<rparr>"
    by (simp add: calculateSquarePosition_def calculateSquareId_def GRID_SIZE_def js_rem_nonneg)
qed

theorem calculateSquare_total_inverse_on_valid_witness:
  "isValidSquareId 243
   \<and> isValidSquarePosition (pos_x (calculateSquarePosition 243)) (pos_y (calculateSquarePosition 243))
   \<and> calculateSquareId (pos_x (calculateSquarePosition 243)) (pos_y (calculateSquarePosition 243)) = 243
   \<and> isValidSquarePosition 3 2
   \<and> isValidSquareId (calculateSquareId 3 2)
   \<and> calculateSquarePosition (calculateSquareId 3 2) = \<lparr>pos_x = 3, pos_y = 2\<rparr>"
proof -
  have v: "isValidSquareId 243"
    by (simp add: isValidSquareId_def GRID_SIZE_def)
  have p: "isValidSquarePosition 3 2"
    by (simp add: isValidSquarePosition_def GRID_SIZE_def)
  from v p calculateSquare_total_inverse_on_valid [of 243 3 2] show ?thesis
    by simp
qed

text \<open>
  The bounds scenario of the specification on the code: \<^verbatim>\<open>calculateSquareId(GRID_SIZE, 0)\<close>
  returns 120, the id of the valid position (0, 1), and \<^verbatim>\<open>calculateSquarePosition(-1)\<close>
  returns the position (-1, -1). Both inputs are out of range, and neither call fails.
\<close>

theorem calculateSquare_out_of_bounds_returns:
  "\<not> isValidSquarePosition GRID_SIZE 0
   \<and> calculateSquareId GRID_SIZE 0 = 120
   \<and> calculateSquareId GRID_SIZE 0 = calculateSquareId 0 1
   \<and> \<not> isValidSquareId (- 1)
   \<and> calculateSquarePosition (- 1) = \<lparr>pos_x = - 1, pos_y = - 1\<rparr>"
  by (simp add: isValidSquarePosition_def isValidSquareId_def calculateSquareId_def
      calculateSquarePosition_def js_rem_def GRID_SIZE_def)

section \<open>Looking squares up\<close>

lemma find_initializeGrid:
  "k < 14400 \<Longrightarrow> find (\<lambda>s. sq_id s = int k) initializeGrid = Some (defaultSquare (int k))"
  unfolding find_Some_iff
  by (rule exI [of _ k]) (simp add: length_initializeGrid nth_initializeGrid defaultSquare_def)

lemma find_initializeGrid_update:
  "k < 14400 \<Longrightarrow> sq_id sq = int k \<Longrightarrow>
     find (\<lambda>s. sq_id s = int k) (initializeGrid[k := sq]) = Some sq"
  unfolding find_Some_iff
  by (rule exI [of _ k]) (simp add: length_initializeGrid nth_initializeGrid defaultSquare_def)

lemma find5_default: "find (\<lambda>s. sq_id s = 5) initializeGrid = Some (defaultSquare 5)"
  using find_initializeGrid [of 5] by simp

lemma find5_update:
  "sq_id sq = 5 \<Longrightarrow> find (\<lambda>s. sq_id s = 5) (initializeGrid[5 := sq]) = Some sq"
  using find_initializeGrid_update [of 5 sq] by simp

lemma find_map_sq_id:
  "(\<And>s. sq_id (f s) = sq_id s) \<Longrightarrow>
     find (\<lambda>s. sq_id s = k) (map f xs) = map_option f (find (\<lambda>s. sq_id s = k) xs)"
  by (induction xs) simp_all

lemma sq_id_purchaseSquare: "sq_id (purchaseSquare sel b io p t s) = sq_id s"
  by (simp add: purchaseSquare_def)

section \<open>The purchase and the other squares\<close>

text \<open>
  Claim C10. Whatever way \<^verbatim>\<open>finalizeSquarePurchase\<close> ends for the selected square
  \<open>k\<close>, the grid keeps its length and every square whose id is not \<open>k\<close> is the same
  record afterwards: same id, owner, price, colour, image data and price history.
\<close>

theorem finalizeSquarePurchase_other_squares_unchanged:
  assumes "selectedSquare cl = Some k"
    and "finalizeSquarePurchase cl setDocOk tLocal tStore isoTime st db = (r, st', db')"
  shows "length (squares st') = length (squares st)
    \<and> (\<forall>i < length (squares st).
          sq_id (squares st ! i) \<noteq> k \<longrightarrow> squares st' ! i = squares st ! i)"
  using assms
  by (auto simp: finalizeSquarePurchase_def purchaseSquare_def Let_def
      split: option.splits if_splits)

theorem finalizeSquarePurchase_other_squares_unchanged_witness:
  "selectedSquare (selecting5 userB (initializeGrid[5 := ownedByA])) = Some 5
   \<and> sq_id (squares (selecting5 userB (initializeGrid[5 := ownedByA])) ! 7) = 7
   \<and> squares (fst (snd (finalizeSquarePurchase (selecting5 userB (initializeGrid[5 := ownedByA]))
          True 2000 2001 ''2025-01-01T00:00:02.000Z''
          (selecting5 userB (initializeGrid[5 := ownedByA])) Map.empty))) ! 7
       = defaultSquare 7
   \<and> length (squares (fst (snd (finalizeSquarePurchase (selecting5 userB (initializeGrid[5 := ownedByA]))
          True 2000 2001 ''2025-01-01T00:00:02.000Z''
          (selecting5 userB (initializeGrid[5 := ownedByA])) Map.empty)))) = 14400"
proof -
  let ?cl = "selecting5 userB (initializeGrid[5 := ownedByA])"
  let ?res = "finalizeSquarePurchase ?cl True 2000 2001 ''2025-01-01T00:00:02.000Z'' ?cl Map.empty"
  have sel: "selectedSquare ?cl = Some 5"
    by (simp add: selecting5_def initialState_def)
  have res: "?res = (fst ?res, fst (snd ?res), snd (snd ?res))"
    by simp
  have sq7: "squares ?cl ! 7 = defaultSquare 7"
    using nth_initializeGrid [of 7] by (simp add: selecting5_def initialState_def)
  have len: "length (squares ?cl) = 14400"
    by (simp add: selecting5_def initialState_def length_initializeGrid)
  from finalizeSquarePurchase_other_squares_unchanged [OF sel res] sq7 len sel
  show ?thesis
    by (simp add: defaultSquare_def)
qed

section \<open>A completed purchase\<close>

lemma selecting5_simps:
  "squares (selecting5 u g) = g" "user (selecting5 u g) = Some u"
  "selectedSquare (selecting5 u g) = Some 5"
  by (simp_all add: selecting5_def initialState_def)

text \<open>
  With a selected square other than 0, a signed-in user, the square found in the
  closure's grid and a write that resolves, the function runs to the end of its
  \<^verbatim>\<open>try\<close> block.
\<close>

lemma finalize_found:
  assumes "selectedSquare cl = Some k" "k \<noteq> 0" "user cl = Some u"
    and "find (\<lambda>s. sq_id s = k) (squares cl) = Some square"
  shows "finalizeSquarePurchase cl True tLocal tStore isoTime st db =
     (Done,
      st\<lparr>squares := map (purchaseSquare k (uid u) (owner square \<noteq> None)
                          (quotedPrice square) tLocal) (squares st),
         purchaseSuccess := True, isProcessingPayment := False\<rparr>,
      db(k \<mapsto> purchaseDoc (uid u) square tStore isoTime (docAt db k)))"
  using assms by (simp add: finalizeSquarePurchase_def)

lemma finalize_selecting5:
  assumes "find (\<lambda>s. sq_id s = 5) g = Some square"
  shows "finalizeSquarePurchase (selecting5 u g) True tLocal tStore isoTime st db =
     (Done,
      st\<lparr>squares := map (purchaseSquare 5 (uid u) (owner square \<noteq> None)
                          (quotedPrice square) tLocal) (squares st),
         purchaseSuccess := True, isProcessingPayment := False\<rparr>,
      db(5 \<mapsto> purchaseDoc (uid u) square tStore isoTime (docAt db 5)))"
  by (rule finalize_found) (simp_all add: selecting5_simps assms)

text \<open>
  Square 0 cannot be bought: \<^verbatim>\<open>!selectedSquare\<close> holds for the id 0, so the purchase
  returns at its first guard, and the payment modal shows the amount 0 for it.
\<close>

lemma finalizeSquarePurchase_square_0:
  "finalizeSquarePurchase (cl\<lparr>selectedSquare := Some 0\<rparr>) setDocOk tLocal tStore isoTime st db
     = (EarlyReturn, st, db)
   \<and> paymentModalAmount (st\<lparr>selectedSquare := Some 0\<rparr>) = 0"
  by (simp add: finalizeSquarePurchase_def paymentModalAmount_def)

section \<open>Stale quotes\<close>

text \<open>
  Claim C1, as the code has it. \<^verbatim>\<open>finalizeSquarePurchase\<close> never reads the store and
  has no conflict outcome. For a selected square \<open>k\<close> other than 0 that the closure's
  grid holds, a signed-in buyer and a write that resolves, the function completes; its
  outcome and the state it leaves are the same for any two contents of the store;
  the stored document of \<open>k\<close> gets the buyer as owner and the price quoted from the
  local square, whatever it held before; the other documents stay.
\<close>

theorem finalizeSquarePurchase_overwrites_store:
  assumes "selectedSquare cl = Some k" "k \<noteq> 0" "user cl = Some u"
    and "find (\<lambda>s. sq_id s = k) (squares cl) = Some square"
    and "finalizeSquarePurchase cl True tLocal tStore isoTime st db = (r, st', db')"
    and "finalizeSquarePurchase cl True tLocal tStore isoTime st db2 = (r2, st2, db2')"
  shows "r = Done \<and> r2 = Done \<and> st2 = st'
    \<and> d_owner (docAt db' k) = Some (uid u)
    \<and> d_price (docAt db' k) = Some (quotedPrice square)
    \<and> (\<forall>j. j \<noteq> k \<longrightarrow> db' j = db j)"
  using assms(5,6) unfolding finalize_found [OF assms(1-4)]
  by (auto simp: docAt_def purchaseDoc_def Let_def)

theorem finalizeSquarePurchase_overwrites_store_witness:
  "selectedSquare (selecting5 userB initializeGrid) = Some 5
   \<and> user (selecting5 userB initializeGrid) = Some userB
   \<and> find (\<lambda>s. sq_id s = 5) (squares (selecting5 userB initializeGrid)) = Some (defaultSquare 5)
   \<and> fst (finalizeSquarePurchase (selecting5 userB initializeGrid) True 2000 2001
        ''2025-01-01T00:00:02.000Z'' (selecting5 userB initializeGrid) [5 \<mapsto> docOfX]) = Done
   \<and> fst (snd (finalizeSquarePurchase (selecting5 userB initializeGrid) True 2000 2001
        ''2025-01-01T00:00:02.000Z'' (selecting5 userB initializeGrid) Map.empty))
     = fst (snd (finalizeSquarePurchase (selecting5 userB initializeGrid) True 2000 2001
        ''2025-01-01T00:00:02.000Z'' (selecting5 userB initializeGrid) [5 \<mapsto> docOfX]))
   \<and> d_owner (docAt (snd (snd (finalizeSquarePurchase (selecting5 userB initializeGrid) True
        2000 2001 ''2025-01-01T00:00:02.000Z'' (selecting5 userB initializeGrid)
        [5 \<mapsto> docOfX]))) 5) = Some (uid userB)
   \<and> d_price (docAt (snd (snd (finalizeSquarePurchase (selecting5 userB initializeGrid) True
        2000 2001 ''2025-01-01T00:00:02.000Z'' (selecting5 userB initializeGrid)
        [5 \<mapsto> docOfX]))) 5) = Some (quotedPrice (defaultSquare 5))"
proof -
  let ?cl = "selecting5 userB initializeGrid"
  let ?r1 = "finalizeSquarePurchase ?cl True 2000 2001 ''2025-01-01T00:00:02.000Z'' ?cl
      [5 \<mapsto> docOfX]"
  let ?r2 = "finalizeSquarePurchase ?cl True 2000 2001 ''2025-01-01T00:00:02.000Z'' ?cl
      Map.empty"
  have sel: "selectedSquare ?cl = Some 5" and nz: "(5::int) \<noteq> 0" and u: "user ?cl = Some userB"
    and fnd: "find (\<lambda>s. sq_id s = 5) (squares ?cl) = Some (defaultSquare 5)"
    by (simp_all add: selecting5_simps find5_default)
  have e1: "?r1 = (fst ?r1, fst (snd ?r1), snd (snd ?r1))"
    and e2: "?r2 = (fst ?r2, fst (snd ?r2), snd (snd ?r2))"
    by simp_all
  from finalizeSquarePurchase_overwrites_store [OF sel nz u fnd e1 e2] sel u fnd
  show ?thesis
    by simp
qed

text \<open>
  The stale-quote scenario of the specification on the code. Square 5 is unowned in the
  buyer's grid and quoted at 1; the store already holds the purchase of X at the price
  2. The commit of B completes, and the stored document then has the owner B and the
  price 1: the transition of X is overwritten.
\<close>

theorem finalizeSquarePurchase_stale_quote_commits:
  "d_owner (docAt [5 \<mapsto> docOfX] 5) = Some ''X''
   \<and> d_price (docAt [5 \<mapsto> docOfX] 5) = Some 2
   \<and> squareOf 5 (selecting5 userB initializeGrid) = Some (defaultSquare 5)
   \<and> quotedPrice (defaultSquare 5) = 1
   \<and> fst (finalizeSquarePurchase (selecting5 userB initializeGrid) True 2000 2001
        ''2025-01-01T00:00:02.000Z'' (selecting5 userB initializeGrid) [5 \<mapsto> docOfX]) = Done
   \<and> d_owner (docAt (snd (snd (finalizeSquarePurchase (selecting5 userB initializeGrid) True
        2000 2001 ''2025-01-01T00:00:02.000Z'' (selecting5 userB initializeGrid)
        [5 \<mapsto> docOfX]))) 5) = Some ''B''
   \<and> d_price (docAt (snd (snd (finalizeSquarePurchase (selecting5 userB initializeGrid) True
        2000 2001 ''2025-01-01T00:00:02.000Z'' (selecting5 userB initializeGrid)
        [5 \<mapsto> docOfX]))) 5) = Some 1"
  unfolding finalize_selecting5 [OF find5_default]
  by (simp add: docAt_def docOfX_def squareOf_def selecting5_simps find5_default
      quotedPrice_def defaultSquare_def purchaseDoc_def userB_def)

section \<open>Artwork and fill colour across a purchase\<close>




section \<open>Purchases by the owner\<close>

text \<open>
  Claim C4, as the code has it. The owner is turned away from the purchase at the
  click, not in the purchase: when the signed-in user owns the clicked square,
  \<^verbatim>\<open>handleSquareClick\<close> opens the drawing canvas on that square in editing mode and
  leaves the payment modal, the view modal and the grid as they were.
\<close>

theorem handleSquareClick_owner_edits:
  assumes "user cl = Some u"
    and "find (\<lambda>s. sq_id s = k) (squares cl) = Some square"
    and "owner square = Some (uid u)"
  shows "drawingCanvasOpen (handleSquareClick cl k st)
    \<and> isEditing (handleSquareClick cl k st)
    \<and> currentSquare (handleSquareClick cl k st) = Some square
    \<and> selectedSquare (handleSquareClick cl k st) = Some k
    \<and> paymentModalOpen (handleSquareClick cl k st) = paymentModalOpen st
    \<and> viewSquareModalOpen (handleSquareClick cl k st) = viewSquareModalOpen st
    \<and> squares (handleSquareClick cl k st) = squares st"
  using assms by (simp add: handleSquareClick_def)

theorem handleSquareClick_owner_edits_witness:
  "user (selecting5 userA (initializeGrid[5 := ownedByA])) = Some userA
   \<and> find (\<lambda>s. sq_id s = 5) (squares (selecting5 userA (initializeGrid[5 := ownedByA])))
       = Some ownedByA
   \<and> owner ownedByA = Some (uid userA)
   \<and> drawingCanvasOpen (handleSquareClick (selecting5 userA (initializeGrid[5 := ownedByA])) 5
         (selecting5 userA (initializeGrid[5 := ownedByA])))
   \<and> currentSquare (handleSquareClick (selecting5 userA (initializeGrid[5 := ownedByA])) 5
         (selecting5 userA (initializeGrid[5 := ownedByA]))) = Some ownedByA
   \<and> paymentModalOpen (handleSquareClick (selecting5 userA (initializeGrid[5 := ownedByA])) 5
         (selecting5 userA (initializeGrid[5 := ownedByA]))) = False
   \<and> squares (handleSquareClick (selecting5 userA (initializeGrid[5 := ownedByA])) 5
         (selecting5 userA (initializeGrid[5 := ownedByA]))) = initializeGrid[5 := ownedByA]"
proof -
  let ?cl = "selecting5 userA (initializeGrid[5 := ownedByA])"
  have u: "user ?cl = Some userA"
    by (simp add: selecting5_simps)
  have fnd: "find (\<lambda>s. sq_id s = 5) (squares ?cl) = Some ownedByA"
    by (simp add: selecting5_simps find5_update ownedByA_def)
  have ow: "owner ownedByA = Some (uid userA)"
    by (simp add: ownedByA_def userA_def)
  have pm: "paymentModalOpen ?cl = False"
    by (simp add: selecting5_def initialState_def)
  from handleSquareClick_owner_edits [OF u fnd ow, of ?cl] u fnd ow pm
  show ?thesis
    by (simp add: selecting5_simps)
qed

text \<open>
  \<^verbatim>\<open>finalizeSquarePurchase\<close> itself does not compare the buyer with the owner. A has
  square 5 selected and owns it at the price 1 (the grid received A's ownership while
  the payment dialogs of A were open); the purchase completes, the price becomes 2 and
  the history gets an entry for A.
\<close>

theorem finalizeSquarePurchase_by_owner_commits:
  "owner (squares (selecting5 userA (initializeGrid[5 := ownedByA])) ! 5) = Some (uid userA)
   \<and> price (squares (selecting5 userA (initializeGrid[5 := ownedByA])) ! 5) = 1
   \<and> fst (finalizeSquarePurchase (selecting5 userA (initializeGrid[5 := ownedByA]))
        True 2000 2001 ''2025-01-01T00:00:02.000Z''
        (selecting5 userA (initializeGrid[5 := ownedByA])) Map.empty) = Done
   \<and> squares (fst (snd (finalizeSquarePurchase (selecting5 userA (initializeGrid[5 := ownedByA]))
        True 2000 2001 ''2025-01-01T00:00:02.000Z''
        (selecting5 userA (initializeGrid[5 := ownedByA])) Map.empty))) ! 5
     = ownedByA\<lparr>price := 2,
         priceHistory := [\<lparr>h_owner = ''A'', h_price = 1, h_timestamp = 2000\<rparr>]\<rparr>
   \<and> d_price (docAt (snd (snd (finalizeSquarePurchase
        (selecting5 userA (initializeGrid[5 := ownedByA]))
        True 2000 2001 ''2025-01-01T00:00:02.000Z''
        (selecting5 userA (initializeGrid[5 := ownedByA])) Map.empty))) 5) = Some 2"
proof -
  have fnd: "find (\<lambda>s. sq_id s = 5) (initializeGrid[5 := ownedByA]) = Some ownedByA"
    by (simp add: find5_update ownedByA_def)
  show ?thesis
    unfolding finalize_selecting5 [OF fnd]
    by (simp add: selecting5_simps length_initializeGrid purchaseSquare_def ownedByA_def
        userA_def quotedPrice_def docAt_def purchaseDoc_def)
qed

section \<open>The amount the payment modal shows\<close>

text \<open>
  The parts of claim C2 that hold: the price of a purchase is the price of the square
  found in the closure's grid when that square has no owner and twice that price when
  it has one, and a completed purchase writes the buyer and this price to every square
  of the grid with the selected id and to the stored document.
\<close>

lemma finalizeSquarePurchase_sets_owner_and_price:
  assumes "selectedSquare cl = Some k" "k \<noteq> 0" "user cl = Some u"
    and "find (\<lambda>s. sq_id s = k) (squares cl) = Some square"
    and "finalizeSquarePurchase cl True tLocal tStore isoTime st db = (r, st', db')"
  shows "quotedPrice square = (if owner square = None then price square else 2 * price square)
    \<and> (\<forall>i < length (squares st). sq_id (squares st ! i) = k \<longrightarrow>
          owner (squares st' ! i) = Some (uid u) \<and> price (squares st' ! i) = quotedPrice square)
    \<and> d_owner (docAt db' k) = Some (uid u)
    \<and> d_price (docAt db' k) = Some (quotedPrice square)"
  using assms(5) unfolding finalize_found [OF assms(1-4)]
  by (auto simp: docAt_def purchaseDoc_def purchaseSquare_def quotedPrice_def Let_def)

text \<open>
  Claim C2 at an owned square. B has selected square 5, which A owns at the price 1.
  The payment modal shows B the amount 1; the purchase that follows commits the price
  2, in the grid and in the store.
\<close>

theorem paymentModalAmount_differs_from_committed_price:
  "squareOf 5 (selecting5 userB (initializeGrid[5 := ownedByA])) = Some ownedByA
   \<and> paymentModalAmount (selecting5 userB (initializeGrid[5 := ownedByA])) = 1
   \<and> quotedPrice ownedByA = 2
   \<and> fst (finalizeSquarePurchase (selecting5 userB (initializeGrid[5 := ownedByA]))
        True 2000 2001 ''2025-01-01T00:00:02.000Z''
        (selecting5 userB (initializeGrid[5 := ownedByA])) Map.empty) = Done
   \<and> price (squares (fst (snd (finalizeSquarePurchase
        (selecting5 userB (initializeGrid[5 := ownedByA]))
        True 2000 2001 ''2025-01-01T00:00:02.000Z''
        (selecting5 userB (initializeGrid[5 := ownedByA])) Map.empty))) ! 5) = 2
   \<and> d_price (docAt (snd (snd (finalizeSquarePurchase
        (selecting5 userB (initializeGrid[5 := ownedByA]))
        True 2000 2001 ''2025-01-01T00:00:02.000Z''
        (selecting5 userB (initializeGrid[5 := ownedByA])) Map.empty))) 5) = Some 2"
proof -
  have fnd: "find (\<lambda>s. sq_id s = 5) (initializeGrid[5 := ownedByA]) = Some ownedByA"
    by (simp add: find5_update ownedByA_def)
  have amt: "paymentModalAmount (selecting5 userB (initializeGrid[5 := ownedByA])) = 1"
    by (simp add: paymentModalAmount_def selecting5_simps fnd) (simp add: ownedByA_def)
  show ?thesis
    unfolding finalize_selecting5 [OF fnd] amt
    by (simp add: squareOf_def find5_update selecting5_simps length_initializeGrid
        purchaseSquare_def ownedByA_def quotedPrice_def docAt_def purchaseDoc_def)
qed

section \<open>Reconciliation from a snapshot\<close>

text \<open>One document applied to a grid: the square at the document's index is merged.\<close>

lemma applySnapshot_single:
  "0 \<le> k \<Longrightarrow> k < int (length g) \<Longrightarrow>
     applySnapshot [(k, d)] g ! nat k = mergeSnapshotDoc d (g ! nat k)"
  by simp

text \<open>
  What the listener takes from a document and what it leaves: owner, image data and
  colour come from the document; the id, the price and the price history of the
  rebuilt square are those of the default square, whatever the document holds.
\<close>

lemma mergeSnapshotDoc_keeps_default_price:
  "price (mergeSnapshotDoc d (defaultSquare i)) = 1
   \<and> priceHistory (mergeSnapshotDoc d (defaultSquare i)) = []
   \<and> sq_id (mergeSnapshotDoc d (defaultSquare i)) = i
   \<and> owner (mergeSnapshotDoc d (defaultSquare i)) = d_owner d"
  by (simp add: mergeSnapshotDoc_def defaultSquare_def)

text \<open>
  Claim C5 at a document with a price and a price history. The store holds the
  document that the purchase of square 5 by B wrote (price 2, one history entry). The
  listener rebuilds square 5 with B as owner and the stored drawing, at the price 1 and
  with an empty history.
\<close>

theorem onSnapshotSquares_drops_price_and_history:
  "d_price docOfB = Some 2
   \<and> d_priceHistory docOfB = Some [\<lparr>h_owner = ''A'', h_price = 1, h_timestamp = 1000\<rparr>]
   \<and> price (squares (selecting5 userB (initializeGrid[5 := boughtByB])) ! 5) = 2
   \<and> squares (onSnapshotSquares [(5, docOfB)] (selecting5 userB (initializeGrid[5 := boughtByB]))) ! 5
     = \<lparr>sq_id = 5, owner = Some ''B'', price = 1, color = Some ''#ffffff'',
        imageData = Some ''data:image/png;base64,QQ=='', priceHistory = []\<rparr>"
proof -
  have "applySnapshot [(5, docOfB)] initializeGrid ! nat 5
      = mergeSnapshotDoc docOfB (initializeGrid ! nat 5)"
    by (rule applySnapshot_single) (simp_all add: length_initializeGrid)
  moreover have "initializeGrid ! nat 5 = defaultSquare 5"
    using nth_initializeGrid [of 5] by simp
  ultimately have "applySnapshot [(5, docOfB)] initializeGrid ! 5
      = mergeSnapshotDoc docOfB (defaultSquare 5)"
    by simp
  then show ?thesis
    by (simp add: onSnapshotSquares_def mergeSnapshotDoc_def defaultSquare_def docOfB_def
        truthy_def selecting5_simps length_initializeGrid boughtByB_def)
qed

section \<open>Saving a drawing\<close>

lemma editing5_simps:
  "squares (editing5 u cs g) = g" "user (editing5 u cs g) = Some u"
  "currentSquare (editing5 u cs g) = Some cs"
  by (simp_all add: editing5_def selecting5_def initialState_def)

lemma applySnapshot_docOfB:
  "applySnapshot [(5, docOfB)] initializeGrid = initializeGrid[5 := reconciledB]"
  using nth_initializeGrid [of 5]
  by (simp add: length_initializeGrid mergeSnapshotDoc_def defaultSquare_def docOfB_def
      reconciledB_def truthy_def)

text \<open>
  The owner check that the code makes for drawing is at the click:
  \<^verbatim>\<open>handleSquareClick\<close> opens the drawing canvas only on a square whose owner is the
  signed-in user, and stores a copy of that square in \<^verbatim>\<open>currentSquare\<close>. The click of
  A on square 5, which A owns, gives the render \<open>editing5\<close>.
\<close>

lemma handleSquareClick_opens_canvas_for_owner_only:
  assumes "\<not> drawingCanvasOpen st" "drawingCanvasOpen (handleSquareClick cl k st)"
  shows "\<exists>sq u. user cl = Some u \<and> owner sq = Some (uid u)
      \<and> currentSquare (handleSquareClick cl k st) = Some sq"
  using assms
  by (auto simp: handleSquareClick_def Let_def split: option.splits if_splits)

lemma handleSquareClick_opens_editing5:
  "handleSquareClick (selecting5 userA (initializeGrid[5 := ownedByA])) 5
     (selecting5 userA (initializeGrid[5 := ownedByA]))
   = editing5 userA ownedByA (initializeGrid[5 := ownedByA])"
proof -
  have "find (\<lambda>s. sq_id s = 5) (initializeGrid[5 := ownedByA]) = Some ownedByA"
    by (simp add: find5_update ownedByA_def)
  then show ?thesis
    by (simp add: handleSquareClick_def selecting5_simps editing5_def)
      (simp add: ownedByA_def userA_def selecting5_def)
qed

text \<open>
  The part of claim C6 that holds for every save: in the grid only the image data of
  the squares with the current square's id change, and the price and the price history
  of every stored document stay. \<^verbatim>\<open>handleSaveDrawing\<close> itself has no owner check: its
  guard is \<^verbatim>\<open>!currentSquare || !user\<close>.
\<close>

lemma handleSaveDrawing_keeps_price_and_history:
  assumes "handleSaveDrawing cl img setDocOk st db = (r, st', db')"
  shows "length (squares st') = length (squares st)
    \<and> (\<forall>i < length (squares st).
          sq_id (squares st' ! i) = sq_id (squares st ! i)
          \<and> owner (squares st' ! i) = owner (squares st ! i)
          \<and> price (squares st' ! i) = price (squares st ! i)
          \<and> color (squares st' ! i) = color (squares st ! i)
          \<and> priceHistory (squares st' ! i) = priceHistory (squares st ! i))
    \<and> (\<forall>j. d_price (docAt db' j) = d_price (docAt db j)
          \<and> d_priceHistory (docAt db' j) = d_priceHistory (docAt db j))"
  using assms
  by (auto simp: handleSaveDrawing_def Let_def docAt_def split: option.splits if_splits)

text \<open>
  Claim C6 at an editor who is no longer the owner. A opened the canvas on square 5
  while owning it, so \<^verbatim>\<open>currentSquare\<close> is A's copy of the square. B then bought the
  square: the store holds the document of B, and the listener rebuilt A's grid from
  it, with B as owner. A saves. The call does not fail: it completes, replaces the
  drawing of the square that B owns in A's grid, and its write names A as the owner of
  the stored document again.
\<close>

theorem handleSaveDrawing_by_former_owner_completes:
  "owner (squares (editing5 userA ownedByA (applySnapshot [(5, docOfB)] initializeGrid)) ! 5)
     = Some ''B''
   \<and> d_owner (docAt [5 \<mapsto> docOfB] 5) = Some ''B''
   \<and> user (editing5 userA ownedByA (applySnapshot [(5, docOfB)] initializeGrid)) = Some userA
   \<and> uid userA = ''A''
   \<and> fst (handleSaveDrawing (editing5 userA ownedByA (applySnapshot [(5, docOfB)] initializeGrid))
        ''data:image/png;base64,Qg=='' True
        (editing5 userA ownedByA (applySnapshot [(5, docOfB)] initializeGrid))
        [5 \<mapsto> docOfB]) = Done
   \<and> squares (fst (snd (handleSaveDrawing
        (editing5 userA ownedByA (applySnapshot [(5, docOfB)] initializeGrid))
        ''data:image/png;base64,Qg=='' True
        (editing5 userA ownedByA (applySnapshot [(5, docOfB)] initializeGrid))
        [5 \<mapsto> docOfB]))) ! 5
     = reconciledB\<lparr>imageData := Some ''data:image/png;base64,Qg==''\<rparr>
   \<and> d_owner (docAt (snd (snd (handleSaveDrawing
        (editing5 userA ownedByA (applySnapshot [(5, docOfB)] initializeGrid))
        ''data:image/png;base64,Qg=='' True
        (editing5 userA ownedByA (applySnapshot [(5, docOfB)] initializeGrid))
        [5 \<mapsto> docOfB]))) 5) = Some ''A''"
  unfolding applySnapshot_docOfB
  by (simp add: handleSaveDrawing_def editing5_simps length_initializeGrid docAt_def)
    (simp add: reconciledB_def ownedByA_def docOfB_def userA_def)

section \<open>The grid that the listener rebuilds from the store\<close>

lemma applySnapshot_append:
  "applySnapshot (xs @ ys) g = applySnapshot ys (applySnapshot xs g)"
  by (induction xs arbitrary: g) auto

lemma length_applySnapshot: "length (applySnapshot xs g) = length g"
  by (induction xs arbitrary: g) auto

lemma applySnapshot_prefix:
  "n \<le> length g \<Longrightarrow> i < length g \<Longrightarrow>
     applySnapshot
       (concat (map (\<lambda>i. case db (int i) of None \<Rightarrow> [] | Some d \<Rightarrow> [(int i, d)]) [0 ..< n])) g ! i
     = (if i < n then (case db (int i) of None \<Rightarrow> g ! i | Some d \<Rightarrow> mergeSnapshotDoc d (g ! i))
        else g ! i)"
proof (induction n arbitrary: i)
  case 0
  then show ?case by simp
next
  case (Suc n)
  let ?pre = "applySnapshot
       (concat (map (\<lambda>i. case db (int i) of None \<Rightarrow> [] | Some d \<Rightarrow> [(int i, d)]) [0 ..< n])) g"
  have len: "length ?pre = length g"
    by (rule length_applySnapshot)
  have ih: "?pre ! j = (if j < n then (case db (int j) of None \<Rightarrow> g ! j
        | Some d \<Rightarrow> mergeSnapshotDoc d (g ! j)) else g ! j)" if "j < length g" for j
    using Suc.IH [of j] Suc.prems(1) that by simp
  show ?case
  proof (cases "db (int n)")
    case None
    then show ?thesis
      using ih [OF Suc.prems(2)] by (auto simp: applySnapshot_append less_Suc_eq)
  next
    case (Some d)
    have n: "n < length g"
      using Suc.prems(1) by simp
    show ?thesis
      using ih [OF Suc.prems(2)] ih [OF n] n Some len Suc.prems(2)
      by (auto simp: applySnapshot_append less_Suc_eq nth_list_update)
  qed
qed

text \<open>
  After a delivery, the square at index \<open>i\<close> is the default square when the store has
  no document for \<open>i\<close>, and the default square with the owner, the image data and the
  colour of the document otherwise: at the price 1 and with an empty history.
\<close>

lemma nth_rebuilt_grid:
  "i < 14400 \<Longrightarrow>
     applySnapshot (snapshotOf db) initializeGrid ! i
     = (case db (int i) of None \<Rightarrow> defaultSquare (int i)
        | Some d \<Rightarrow> mergeSnapshotDoc d (defaultSquare (int i)))"
  using applySnapshot_prefix [of 14400 initializeGrid i db]
  by (simp add: snapshotOf_def GRID_SIZE_def length_initializeGrid nth_initializeGrid
      split: option.splits)

lemma sq_id_mergeSnapshotDoc: "sq_id (mergeSnapshotDoc d s) = sq_id s"
  by (simp add: mergeSnapshotDoc_def)

lemma squareOf_onSnapshotSquares:
  assumes "0 \<le> k" "k < 14400"
  shows "squareOf k (onSnapshotSquares (snapshotOf db) st)
     = Some (case db k of None \<Rightarrow> defaultSquare k
             | Some d \<Rightarrow> mergeSnapshotDoc d (defaultSquare k))"
proof -
  let ?g = "applySnapshot (snapshotOf db) initializeGrid"
  have len: "length ?g = 14400"
    by (simp add: length_applySnapshot length_initializeGrid)
  have ids: "sq_id (?g ! i) = int i" if "i < 14400" for i
    using that
    by (simp add: nth_rebuilt_grid sq_id_mergeSnapshotDoc defaultSquare_def split: option.splits)
  have nk: "nat k < 14400" "int (nat k) = k"
    using assms by simp_all
  have "find (\<lambda>s. sq_id s = k) ?g = Some (?g ! nat k)"
    unfolding find_Some_iff
    using nk ids len by (intro exI [of _ "nat k"]) auto
  then show ?thesis
    using nk by (simp add: squareOf_def onSnapshotSquares_def nth_rebuilt_grid
        split: option.splits)
qed

section \<open>Runs of purchases of one square\<close>

lemma purchaseBy_found:
  assumes "squareOf k st = Some c" "k \<noteq> 0"
  shows "purchaseBy k (st, db) b =
     (st\<lparr>selectedSquare := Some k, user := Some (buyer b),
         squares := map (purchaseSquare k (uid (buyer b)) (owner c \<noteq> None)
                          (quotedPrice c) (atTime b)) (squares st),
         purchaseSuccess := True, isProcessingPayment := False\<rparr>,
      db(k \<mapsto> purchaseDoc (uid (buyer b)) c (atTime b) (atIso b) (docAt db k)))"
proof -
  let ?cl = "st\<lparr>selectedSquare := Some k, user := Some (buyer b)\<rparr>"
  have fnd: "find (\<lambda>s. sq_id s = k) (squares ?cl) = Some c"
    using assms(1) by (simp add: squareOf_def)
  have "finalizeSquarePurchase ?cl True (atTime b) (atTime b) (atIso b) ?cl db =
     (Done,
      ?cl\<lparr>squares := map (purchaseSquare k (uid (buyer b)) (owner c \<noteq> None)
                          (quotedPrice c) (atTime b)) (squares ?cl),
         purchaseSuccess := True, isProcessingPayment := False\<rparr>,
      db(k \<mapsto> purchaseDoc (uid (buyer b)) c (atTime b) (atIso b) (docAt db k)))"
    by (rule finalize_found [OF _ assms(2) _ fnd]) simp_all
  then show ?thesis
    by (simp add: purchaseBy_def)
qed

lemma squareOf_purchaseBy:
  assumes "squareOf k st = Some c" "k \<noteq> 0"
  shows "squareOf k (fst (purchaseBy k (st, db) b))
     = Some (purchaseSquare k (uid (buyer b)) (owner c \<noteq> None) (quotedPrice c) (atTime b) c)"
  using assms(1) unfolding purchaseBy_found [OF assms]
  by (simp add: squareOf_def find_map_sq_id sq_id_purchaseSquare)

text \<open>
  What the purchase itself attempts, as claims C7 and C8 say it: bought from an owner,
  the square doubles its price and its history gets one more entry, for the owner
  replaced and the price before the doubling.
\<close>

lemma purchaseBy_from_owner_doubles_and_appends:
  assumes "squareOf k st = Some c" "k \<noteq> 0" "owner c = Some ow" "ow \<noteq> []"
  shows "squareOf k (fst (purchaseBy k (st, db) b))
     = Some (c\<lparr>owner := Some (uid (buyer b)),
               price := 2 * price c,
               priceHistory := priceHistory c @
                 [\<lparr>h_owner = ow, h_price = price c, h_timestamp = atTime b\<rparr>]\<rparr>)"
proof -
  have "sq_id c = k"
    using assms(1) by (auto simp: squareOf_def find_Some_iff)
  then show ?thesis
    using assms(3,4) unfolding squareOf_purchaseBy [OF assms(1,2)]
    by (simp add: purchaseSquare_def quotedPrice_def)
qed

text \<open>
  The purchase followed by the delivery: the store gets the document of the purchase,
  and the square of the grid is rebuilt from that document.
\<close>

lemma purchaseAndSync_found:
  assumes "squareOf k st = Some c" "0 < k" "k < 14400"
  shows "snd (purchaseAndSync k (st, db) b)
       = db(k \<mapsto> purchaseDoc (uid (buyer b)) c (atTime b) (atIso b) (docAt db k))
    \<and> squareOf k (fst (purchaseAndSync k (st, db) b))
       = Some (mergeSnapshotDoc (purchaseDoc (uid (buyer b)) c (atTime b) (atIso b) (docAt db k))
                 (defaultSquare k))"
proof -
  have nz: "k \<noteq> 0" and nn: "0 \<le> k"
    using assms(2) by simp_all
  show ?thesis
    unfolding purchaseAndSync_def Let_def purchaseBy_found [OF assms(1) nz]
    by (simp add: squareOf_onSnapshotSquares [OF nn assms(3)])
qed

lemma squareOf5_initialState: "squareOf 5 initialState = Some (defaultSquare 5)"
  by (simp add: squareOf_def initialState_def find5_default)

lemma purchaseAndSync_step:
  assumes "squareOf k (fst s) = Some c" "0 < k" "k < 14400"
  shows "docAt (snd (purchaseAndSync k s b)) k
       = purchaseDoc (uid (buyer b)) c (atTime b) (atIso b) (docAt (snd s) k)"
    and "squareOf k (fst (purchaseAndSync k s b))
       = Some (mergeSnapshotDoc
                 (purchaseDoc (uid (buyer b)) c (atTime b) (atIso b) (docAt (snd s) k))
                 (defaultSquare k))"
  using purchaseAndSync_found [of k "fst s" c "snd s" b] assms
  by (simp_all add: docAt_def)

lemma purchaseBy_step:
  assumes "squareOf k (fst s) = Some c" "k \<noteq> 0"
  shows "docAt (snd (purchaseBy k s b)) k
       = purchaseDoc (uid (buyer b)) c (atTime b) (atIso b) (docAt (snd s) k)"
    and "squareOf k (fst (purchaseBy k s b))
       = Some (purchaseSquare k (uid (buyer b)) (owner c \<noteq> None) (quotedPrice c) (atTime b) c)"
  using purchaseBy_found [of k "fst s" c "snd s" b] squareOf_purchaseBy [of k "fst s" c "snd s" b]
    assms
  by (simp_all add: docAt_def)

text \<open>
  The run on square 5 of the initial grid and the empty store. After the purchase by
  A and its delivery, A owns the square at the price 1. After the purchase by B and
  its delivery, the store holds the price 2 and the entry for A, and the grid has B
  as owner at the price 1 with an empty history.
\<close>

lemma run_A:
  "squareOf 5 (fst (syncedPurchases 5 [buyA] (initialState, Map.empty)))
     = Some \<lparr>sq_id = 5, owner = Some ''A'', price = 1, color = Some ''#ffffff'',
             imageData = None, priceHistory = []\<rparr>"
  "docAt (snd (syncedPurchases 5 [buyA] (initialState, Map.empty))) 5
     = \<lparr>d_owner = Some ''A'', d_price = Some 1, d_priceHistory = Some [],
        d_imageData = None, d_color = Some ''#ffffff'',
        d_updatedAt = Some ''2025-01-01T00:00:01.000Z''\<rparr>"
proof -
  have c: "squareOf 5 (fst (initialState, Map.empty :: Firestore)) = Some (defaultSquare 5)"
    by (simp add: squareOf5_initialState)
  show "squareOf 5 (fst (syncedPurchases 5 [buyA] (initialState, Map.empty)))
     = Some \<lparr>sq_id = 5, owner = Some ''A'', price = 1, color = Some ''#ffffff'',
             imageData = None, priceHistory = []\<rparr>"
    using purchaseAndSync_step(2) [OF c, of buyA]
    by (simp add: syncedPurchases_def mergeSnapshotDoc_def purchaseDoc_def defaultSquare_def
        quotedPrice_def docAt_def emptyDoc_def truthy_def buyA_def userA_def)
  show "docAt (snd (syncedPurchases 5 [buyA] (initialState, Map.empty))) 5
     = \<lparr>d_owner = Some ''A'', d_price = Some 1, d_priceHistory = Some [],
        d_imageData = None, d_color = Some ''#ffffff'',
        d_updatedAt = Some ''2025-01-01T00:00:01.000Z''\<rparr>"
    using purchaseAndSync_step(1) [OF c, of buyA]
    by (simp add: syncedPurchases_def purchaseDoc_def defaultSquare_def
        quotedPrice_def docAt_def emptyDoc_def buyA_def userA_def)
qed

lemma run_AB:
  "squareOf 5 (fst (syncedPurchases 5 [buyA, buyB] (initialState, Map.empty)))
     = Some \<lparr>sq_id = 5, owner = Some ''B'', price = 1, color = Some ''#ffffff'',
             imageData = None, priceHistory = []\<rparr>"
  "docAt (snd (syncedPurchases 5 [buyA, buyB] (initialState, Map.empty))) 5
     = \<lparr>d_owner = Some ''B'', d_price = Some 2,
        d_priceHistory = Some [\<lparr>h_owner = ''A'', h_price = 1, h_timestamp = 2000\<rparr>],
        d_imageData = None, d_color = Some ''#ffffff'',
        d_updatedAt = Some ''2025-01-01T00:00:02.000Z''\<rparr>"
proof -
  have step: "syncedPurchases 5 [buyA, buyB] (initialState, Map.empty)
      = purchaseAndSync 5 (syncedPurchases 5 [buyA] (initialState, Map.empty)) buyB"
    by (simp add: syncedPurchases_def)
  show "squareOf 5 (fst (syncedPurchases 5 [buyA, buyB] (initialState, Map.empty)))
     = Some \<lparr>sq_id = 5, owner = Some ''B'', price = 1, color = Some ''#ffffff'',
             imageData = None, priceHistory = []\<rparr>"
    unfolding step
    using purchaseAndSync_step(2) [OF run_A(1), of buyB]
    by (simp add: run_A(2) mergeSnapshotDoc_def purchaseDoc_def defaultSquare_def
        quotedPrice_def truthy_def buyB_def userB_def)
  show "docAt (snd (syncedPurchases 5 [buyA, buyB] (initialState, Map.empty))) 5
     = \<lparr>d_owner = Some ''B'', d_price = Some 2,
        d_priceHistory = Some [\<lparr>h_owner = ''A'', h_price = 1, h_timestamp = 2000\<rparr>],
        d_imageData = None, d_color = Some ''#ffffff'',
        d_updatedAt = Some ''2025-01-01T00:00:02.000Z''\<rparr>"
    unfolding step
    using purchaseAndSync_step(1) [OF run_A(1), of buyB]
    by (simp add: run_A(2) purchaseDoc_def quotedPrice_def buyB_def userB_def)
qed

lemma run_ABA_step:
  "syncedPurchases 5 [buyA, buyB, buyA2] (initialState, Map.empty)
     = purchaseAndSync 5 (syncedPurchases 5 [buyA, buyB] (initialState, Map.empty)) buyA2"
  by (simp add: syncedPurchases_def)

text \<open>
  Claim C7 on a run of the program. Square 5 is bought by A, then by B from A, then by
  A from B, and the listener delivers the store after every write. After the two
  transitions between owners the claim has the price at the initial price times
  \<open>2 ^ 2\<close>, which is 4. When A buys the square back, the grid that the listener has
  rebuilt holds it at the price 1, so the purchase commits the price 2, in the grid
  and in the store, and the next delivery puts the grid back to the price 1.
\<close>

theorem syncedPurchases_price_not_doubled:
  "map_option owner (squareOf 5 (fst (syncedPurchases 5 [buyA, buyB] (initialState, Map.empty))))
     = Some (Some ''B'')
   \<and> d_price (docAt (snd (syncedPurchases 5 [buyA, buyB] (initialState, Map.empty))) 5) = Some 2
   \<and> map_option price (squareOf 5 (fst (syncedPurchases 5 [buyA, buyB] (initialState, Map.empty))))
     = Some 1
   \<and> map_option owner (squareOf 5 (fst (purchaseBy 5
        (syncedPurchases 5 [buyA, buyB] (initialState, Map.empty)) buyA2))) = Some (Some ''A'')
   \<and> map_option price (squareOf 5 (fst (purchaseBy 5
        (syncedPurchases 5 [buyA, buyB] (initialState, Map.empty)) buyA2))) = Some 2
   \<and> d_price (docAt (snd (purchaseBy 5
        (syncedPurchases 5 [buyA, buyB] (initialState, Map.empty)) buyA2)) 5) = Some 2
   \<and> map_option price (squareOf 5
        (fst (syncedPurchases 5 [buyA, buyB, buyA2] (initialState, Map.empty)))) = Some 1
   \<and> INITIAL_SQUARE_PRICE * 2 ^ 2 = 4"
proof -
  have nz: "(5::int) \<noteq> 0"
    by simp
  show ?thesis
    unfolding run_ABA_step
    using purchaseBy_step [OF run_AB(1) nz, of buyA2] purchaseAndSync_step(2) [OF run_AB(1), of buyA2]
    by (simp add: run_AB mergeSnapshotDoc_def purchaseDoc_def purchaseSquare_def
        defaultSquare_def quotedPrice_def buyA2_def userA_def INITIAL_SQUARE_PRICE_def)
qed

text \<open>
  Claim C8 on the same run. After the two transitions between owners the claim has
  two entries in the history, for A and then for B. The purchase by B stores the entry
  for A, and the delivery rebuilds the grid with an empty history. When A buys the
  square back, the history of the grid and the history that the purchase writes to the
  store hold the one entry for B, so the entry for A is gone from the store; the next
  delivery empties the history of the grid again.
\<close>

theorem syncedPurchases_history_not_kept:
  "d_priceHistory (docAt (snd (syncedPurchases 5 [buyA, buyB] (initialState, Map.empty))) 5)
     = Some [\<lparr>h_owner = ''A'', h_price = 1, h_timestamp = 2000\<rparr>]
   \<and> map_option priceHistory
        (squareOf 5 (fst (syncedPurchases 5 [buyA, buyB] (initialState, Map.empty)))) = Some []
   \<and> map_option owner (squareOf 5 (fst (purchaseBy 5
        (syncedPurchases 5 [buyA, buyB] (initialState, Map.empty)) buyA2))) = Some (Some ''A'')
   \<and> map_option priceHistory (squareOf 5 (fst (purchaseBy 5
        (syncedPurchases 5 [buyA, buyB] (initialState, Map.empty)) buyA2)))
     = Some [\<lparr>h_owner = ''B'', h_price = 1, h_timestamp = 3000\<rparr>]
   \<and> d_priceHistory (docAt (snd (purchaseBy 5
        (syncedPurchases 5 [buyA, buyB] (initialState, Map.empty)) buyA2)) 5)
     = Some [\<lparr>h_owner = ''B'', h_price = 1, h_timestamp = 3000\<rparr>]
   \<and> map_option priceHistory (squareOf 5
        (fst (syncedPurchases 5 [buyA, buyB, buyA2] (initialState, Map.empty)))) = Some []"
proof -
  have nz: "(5::int) \<noteq> 0"
    by simp
  show ?thesis
    unfolding run_ABA_step
    using purchaseBy_step [OF run_AB(1) nz, of buyA2] purchaseAndSync_step(2) [OF run_AB(1), of buyA2]
    by (simp add: run_AB mergeSnapshotDoc_def purchaseDoc_def purchaseSquare_def
        defaultSquare_def quotedPrice_def buyA2_def userA_def)
qed

end
